theory Spec2Isabelle
  imports Complex_Main "HOL-Library.AList"
begin

section \<open>Python values\<close>

text \<open>
  The bot of \<^verbatim>\<open>src/core/ml_trading_bot.py\<close> reads a prediction and a strategy
  configuration, both dictionaries decoded from JSON, and keeps its open orders in the
  dictionary \<^verbatim>\<open>self.order_state\<close>.

  \<^item> A dictionary with a fixed set of keys is a \<^theory_text>\<open>record\<close> whose fields have an
    option type: \<open>None\<close> is an absent key, and \<^verbatim>\<open>d.get(k, default)\<close> is \<open>dget\<close>.
    Every field has the type the code expects of the key, so the \<^verbatim>\<open>TypeError\<close> of a
    comparison between a string and a number is outside the model.
  \<^item> A Python \<^verbatim>\<open>float\<close> is an exact rational number (\<^typ>\<open>rat\<close>): comparisons,
    \<^verbatim>\<open>min\<close>, products and quotients are the exact ones, \<^verbatim>\<open>round(x, 8)\<close> rounds the exact
    value to the nearest multiple of \<open>10\<^sup>-\<^sup>8\<close>, a tie to the even one. The rounding
    error of binary floating point, infinities and NaN are outside the model.
  \<^item> An exception is a value: a function that can raise returns \<open>error + 'a\<close>, with
    \<open>Inl\<close> the exception.
\<close>

datatype error =
    KeyError string
  | ValueError string
  | ZeroDivisionError
  | GatewayError string

type_synonym 'a result = "error + 'a"

definition dget :: "'a option \<Rightarrow> 'a \<Rightarrow> 'a" where
  \<comment> \<open>\<^verbatim>\<open>d.get(key, default)\<close>, the looked-up key being the first argument\<close>
  "dget v d = (case v of None \<Rightarrow> d | Some x \<Rightarrow> x)"

definition py_in :: "string option \<Rightarrow> string list \<Rightarrow> bool" where
  \<comment> \<open>\<^verbatim>\<open>x in xs\<close> for \<^verbatim>\<open>x = d.get(key)\<close>: \<^verbatim>\<open>None\<close> is in no list of strings\<close>
  "py_in x xs = (case x of None \<Rightarrow> False | Some s \<Rightarrow> s \<in> set xs)"

definition truthy_str :: "string option \<Rightarrow> bool" where
  \<comment> \<open>truth value of \<^verbatim>\<open>d.get(key)\<close> for a string key: \<^verbatim>\<open>None\<close> and \<^verbatim>\<open>""\<close> are false\<close>
  "truthy_str v = (case v of None \<Rightarrow> False | Some s \<Rightarrow> s \<noteq> [])"

definition truthy_num :: "rat option \<Rightarrow> bool" where
  \<comment> \<open>truth value of \<^verbatim>\<open>d.get(key)\<close> for a numeric key: \<^verbatim>\<open>None\<close> and \<^verbatim>\<open>0\<close> are false\<close>
  "truthy_num v = (case v of None \<Rightarrow> False | Some x \<Rightarrow> x \<noteq> 0)"

definition py_or :: "string option \<Rightarrow> string \<Rightarrow> string" where
  \<comment> \<open>\<^verbatim>\<open>d.get(key) or y\<close>\<close>
  "py_or v y = (case v of None \<Rightarrow> y | Some s \<Rightarrow> if s \<noteq> [] then s else y)"

definition py_round :: "rat \<Rightarrow> int" where
  \<comment> \<open>rounding to the nearest integer, a tie to the even neighbour\<close>
  "py_round x =
     (let f = \<lfloor>x\<rfloor>; d = x - of_int f
      in if d < 1 / 2 then f
         else if 1 / 2 < d then f + 1
         else if even f then f else f + 1)"

definition round8 :: "rat \<Rightarrow> rat" where
  \<comment> \<open>\<^verbatim>\<open>round(x, 8)\<close>\<close>
  "round8 x = of_int (py_round (x * 100000000)) / 100000000"

definition py_int :: "rat \<Rightarrow> int" where
  \<comment> \<open>\<^verbatim>\<open>int(x)\<close> of a float: truncation towards zero\<close>
  "py_int x = (if 0 \<le> x then \<lfloor>x\<rfloor> else \<lceil>x\<rceil>)"

definition lower_char :: "char \<Rightarrow> char" where
  "lower_char c =
     (let n = (of_char c :: nat)
      in if 65 \<le> n \<and> n \<le> 90 then char_of (n + 32) else c)"

definition lower :: "string \<Rightarrow> string" where
  \<comment> \<open>\<^verbatim>\<open>s.lower()\<close> on the letters A to Z; no other character lowers to one of
      \<^verbatim>\<open>b\<close>, \<^verbatim>\<open>u\<close>, \<^verbatim>\<open>y\<close>, the only letters the result is compared with\<close>
  "lower s = map lower_char s"


section \<open>Data model\<close>

text \<open>The prediction returned by the ML endpoint; the keys the bot reads.\<close>

record prediction =
  signal :: "string option"
  confidence :: "rat option"
  profit_after_fee :: "rat option"
  current_price :: "rat option"
  expected_price :: "rat option"
  predicted_return :: "rat option"
  updated_at :: "string option"

text \<open>
  \<^verbatim>\<open>config["strategy"]\<close>. The nested dictionaries \<^verbatim>\<open>position_size\<close>, \<^verbatim>\<open>risk\<close>, \<^verbatim>\<open>exit\<close>
  and \<^verbatim>\<open>order_management\<close> are read with \<^verbatim>\<open>self.strategy.get(name, {})\<close>, so an absent
  one reads as the empty one: their keys are fields of the one record. The keys passed
  through \<^verbatim>\<open>int(...)\<close> hold integers.
\<close>

record strategy_cfg =
  cfg_dry_run :: "bool option"
  signal_whitelist :: "string list option"
  min_confidence :: "rat option"
  min_profit_after_fee :: "rat option"
  use_expected_price :: "bool option"
  limit_price_slippage :: "rat option"
  mode :: "string option"
  percent_of_balance :: "rat option"
  fixed_size :: "rat option"
  max_exposure_usd :: "rat option"
  max_open_positions :: "int option"
  order_type :: "string option"
  take_profit_pct :: "rat option"
  stop_loss_pct :: "rat option"
  cancel_if_unfilled_after_sec :: "int option"
  monitor_open_orders_every_sec :: "int option"

text \<open>
  One entry of \<^verbatim>\<open>self.order_state\<close>. \<^verbatim>\<open>place_order\<close> writes \<^verbatim>\<open>ordType\<close> in dry-run mode
  only; \<^verbatim>\<open>manage_orders\<close> reads \<^verbatim>\<open>created_at\<close> with \<^verbatim>\<open>meta.get\<close>.
\<close>

record order_meta =
  ordId :: string
  instId :: string
  side :: string
  px :: string
  sz :: string
  ordType :: "string option"
  state :: string
  created_at :: "string option"

text \<open>
  The dictionary is insertion-ordered with unique keys: an association list, with
  \<^const>\<open>AList.update\<close> for \<^verbatim>\<open>d[k] = v\<close>, \<^const>\<open>AList.map_entry\<close> for a write into the
  stored entry, \<^const>\<open>AList.delete\<close> for \<^verbatim>\<open>d.pop(k, None)\<close>.
\<close>

type_synonym ledger = "(string \<times> order_meta) list"

text \<open>A response dictionary of the exchange; the keys the bot reads.\<close>

record okx_resp =
  r_ordId :: "string option"
  r_ord_id :: "string option"
  r_clOrdId :: "string option"
  r_instId :: "string option"
  r_fillPx :: "string option"
  r_sz :: "string option"
  r_state :: "string option"
  r_sCode :: "string option"

text \<open>
  The exchange client \<^verbatim>\<open>self.okx\<close>: what each of its methods returns or raises for given
  arguments.
\<close>

record okx_client =
  get_account_balance :: "string \<Rightarrow> rat result"
  okx_place_order :: "string \<Rightarrow> string \<Rightarrow> rat \<Rightarrow> rat \<Rightarrow> string \<Rightarrow> okx_resp result"
  okx_cancel_order :: "string \<Rightarrow> string \<Rightarrow> okx_resp result"

text \<open>
  What the world answers during one call of a method of the bot: the exchange client,
  the ML endpoint, the clock and two library functions. \<open>ml_response\<close> is the outcome of
  \<^verbatim>\<open>requests.get(...)\<close>, \<^verbatim>\<open>raise_for_status()\<close> and \<^verbatim>\<open>resp.json()\<close>: \<open>Inl\<close> when one of
  them raises, \<open>Inr None\<close> for a decoded value that Python takes as false (\<^verbatim>\<open>null\<close>,
  \<^verbatim>\<open>{}\<close>). \<open>time_time\<close> is \<^verbatim>\<open>time.time()\<close>, \<open>now_iso\<close> is \<^verbatim>\<open>utils.now_iso()\<close>,
  \<open>str_float\<close> is \<^verbatim>\<open>str(x)\<close> of a float and \<open>iso_timestamp s\<close> is
  \<^verbatim>\<open>datetime.fromisoformat(s.replace("Z", "+00:00")).timestamp()\<close>, \<open>None\<close> when it raises.
\<close>

record env =
  okx :: okx_client
  ml_response :: "prediction option result"
  time_time :: rat
  now_iso :: string
  str_float :: "rat \<Rightarrow> string"
  iso_timestamp :: "string \<Rightarrow> rat option"

text \<open>The calls on \<^verbatim>\<open>self.log\<close>, one constructor for each call in the source.\<close>

datatype log_event =
    Debug_not_whitelisted "string option"
  | Debug_low_confidence "rat option"
  | Debug_low_profit "rat option"
  | Debug_balance rat rat rat rat
  | Info_placing string string rat rat string bool
  | Error_place error
  | Info_cancel string bool
  | Error_cancel error
  | Debug_unsupported_signal "string option"
  | Info_rejected "string option"
  | Warning_zero_size
  | Info_max_open nat
  | Info_placed order_meta
  | Debug_tp_sl "rat option" "rat option"
  | Info_timed_out string int
  | Error_fetch error
  | Info_prediction "string option" "rat option" "rat option" "string option"
  | Info_started bool
  | Exception_loop error

record bot =
  symbol :: string
  strategy :: strategy_cfg
  dry_run :: bool
  order_state :: ledger
  logged :: "log_event list"

definition logger :: "log_event \<Rightarrow> bot \<Rightarrow> bot" where
  "logger e self = self\<lparr>logged := logged self @ [e]\<rparr>"

definition init_bot :: "string option \<Rightarrow> strategy_cfg \<Rightarrow> bot" where
  \<comment> \<open>\<^verbatim>\<open>__init__\<close>: the symbol of \<^verbatim>\<open>config["ml_api"]\<close> and \<^verbatim>\<open>config["strategy"]\<close>\<close>
  "init_bot symb cfg =
     \<lparr>symbol = dget symb ''BTC-USDT'', strategy = cfg, dry_run = dget (cfg_dry_run cfg) True,
      order_state = [], logged = []\<rparr>"


section \<open>Decisions\<close>

definition should_trade :: "bot \<Rightarrow> prediction \<Rightarrow> bool \<times> bot" where
  "should_trade self pred =
     (let sig = signal pred
      in if \<not> py_in sig (dget (signal_whitelist (strategy self)) [''buy'', ''sell''])
         then (False, logger (Debug_not_whitelisted sig) self)
         else if dget (confidence pred) 0 < dget (min_confidence (strategy self)) (6 / 10)
         then (False, logger (Debug_low_confidence (confidence pred)) self)
         else if dget (profit_after_fee pred) 0
                   < dget (min_profit_after_fee (strategy self)) 0
         then (False, logger (Debug_low_profit (profit_after_fee pred)) self)
         else (True, self))"

definition calc_limit_price :: "bot \<Rightarrow> prediction \<Rightarrow> string \<Rightarrow> rat result" where
  "calc_limit_price self pred sd =
     (case current_price pred of
        None \<Rightarrow> Inl (KeyError ''current_price'')
      | Some cur \<Rightarrow>
          (let expected = dget (expected_price pred) cur;
               use_expected = dget (use_expected_price (strategy self)) True;
               base = (if use_expected then expected else cur);
               slippage = dget (limit_price_slippage (strategy self)) (1 / 1000);
               price = (if lower sd = ''buy''
                        then (if base > cur then base * (1 + slippage) else base)
                        else (if base < cur then base * (1 - slippage) else base))
           in Inr (round8 price)))"

definition calc_size :: "env \<Rightarrow> bot \<Rightarrow> prediction \<Rightarrow> rat \<Rightarrow> rat result \<times> bot" where
  "calc_size ev self pred price =
     (let md = dget (mode (strategy self)) ''percent''
      in if md = ''percent'' then
           (let pct = dget (percent_of_balance (strategy self)) (1 / 100)
            in case get_account_balance (okx ev) ''USDT'' of
                 Inl e \<Rightarrow> (Inl e, self)
               | Inr balance \<Rightarrow>
                   (let max_exposure = dget (max_exposure_usd (strategy self)) 1000000000;
                        allocated_usd = min (balance * pct) max_exposure
                    in if price = 0 then (Inl ZeroDivisionError, self)
                       else (let size = allocated_usd / price
                             in (Inr (round8 size),
                                 logger (Debug_balance balance pct allocated_usd size) self))))
         else if md = ''fixed'' then (Inr (round8 (dget (fixed_size (strategy self)) 0)), self)
         else (Inl (ValueError ''Unknown position size mode''), self))"


section \<open>Orders\<close>

text \<open>\<^verbatim>\<open>str(n)\<close> of an integer, for the identifier \<^verbatim>\<open>f"dry_{int(time.time()*1000)}"\<close>.\<close>

definition digit_char :: "nat \<Rightarrow> char" where
  \<comment> \<open>the digit \<open>d\<close>, for \<open>d\<close> below 10\<close>
  "digit_char d = ''0123456789'' ! d"

fun str_nat :: "nat \<Rightarrow> string" where
  "str_nat n = (if n < 10 then [digit_char n] else str_nat (n div 10) @ [digit_char (n mod 10)])"

declare str_nat.simps [simp del]

definition str_int :: "int \<Rightarrow> string" where
  "str_int i = (if i < 0 then CHR ''-'' # str_nat (nat (- i)) else str_nat (nat i))"

definition place_order ::
  "env \<Rightarrow> bot \<Rightarrow> string \<Rightarrow> string \<Rightarrow> rat \<Rightarrow> rat \<Rightarrow> string \<Rightarrow> order_meta option \<times> bot" where
  "place_order ev self0 symb sd price size' typ =
     (let self = logger (Info_placing sd symb price size' typ (dry_run self0)) self0
      in if dry_run self then
           (let fake_id = ''dry_'' @ str_int (py_int (time_time ev * 1000));
                meta = \<lparr>ordId = fake_id, instId = symb, side = sd,
                        px = str_float ev price, sz = str_float ev size',
                        ordType = Some typ, state = ''live'', created_at = Some (now_iso ev)\<rparr>
            in (Some meta, self\<lparr>order_state := AList.update fake_id meta (order_state self)\<rparr>))
         else
           (case okx_place_order (okx ev) symb sd price size' typ of
              Inl e \<Rightarrow> (None, logger (Error_place e) self)
            | Inr resp \<Rightarrow>
                (let ord_id = py_or (r_ordId resp) (py_or (r_ord_id resp)
                                (py_or (r_clOrdId resp) (str_float ev (time_time ev))));
                     meta = \<lparr>ordId = ord_id, instId = dget (r_instId resp) symb, side = sd,
                             px = py_or (r_fillPx resp) (str_float ev price),
                             sz = py_or (r_sz resp) (str_float ev size'),
                             ordType = None, state = dget (r_state resp) ''live'',
                             created_at = Some (now_iso ev)\<rparr>
                 in (Some meta,
                     self\<lparr>order_state := AList.update ord_id meta (order_state self)\<rparr>))))"

definition canceled_ack :: "string \<Rightarrow> okx_resp" where
  \<comment> \<open>\<^verbatim>\<open>{"ordId": order_id, "state": "canceled"}\<close>\<close>
  "canceled_ack order_id =
     \<lparr>r_ordId = Some order_id, r_ord_id = None, r_clOrdId = None, r_instId = None,
      r_fillPx = None, r_sz = None, r_state = Some ''canceled'', r_sCode = None\<rparr>"

definition cancel_order :: "env \<Rightarrow> bot \<Rightarrow> string \<Rightarrow> string \<Rightarrow> okx_resp option \<times> bot" where
  "cancel_order ev self0 symb order_id =
     (let self = logger (Info_cancel order_id (dry_run self0)) self0
      in if dry_run self then
           (Some (canceled_ack order_id),
            if map_of (order_state self) order_id \<noteq> None
            then self\<lparr>order_state :=
                   AList.map_entry order_id (\<lambda>m. m\<lparr>state := ''canceled''\<rparr>) (order_state self)\<rparr>
            else self)
         else
           (case okx_cancel_order (okx ev) symb order_id of
              Inl e \<Rightarrow> (None, logger (Error_cancel e) self)
            | Inr resp \<Rightarrow>
                (Some resp,
                 if dget (r_sCode resp) ''0'' = ''0'' \<or> r_state resp = Some ''canceled''
                    \<or> truthy_str (r_ordId resp)
                 then self\<lparr>order_state := AList.delete order_id (order_state self)\<rparr>
                 else self)))"

definition open_count :: "ledger \<Rightarrow> nat" where
  \<comment> \<open>\<^verbatim>\<open>sum(1 for o in self.order_state.values() if o.get("state") == "live")\<close>\<close>
  "open_count l = length (filter (\<lambda>m. state m = ''live'') (map snd l))"

definition process_prediction :: "env \<Rightarrow> bot \<Rightarrow> prediction \<Rightarrow> unit result \<times> bot" where
  "process_prediction ev self0 pred =
     (let sig = signal pred
      in if sig \<noteq> Some ''buy'' \<and> sig \<noteq> Some ''sell''
         then (Inr (), logger (Debug_unsupported_signal sig) self0)
         else
           (let sd = (if sig = Some ''buy'' then ''buy'' else ''sell'');
                (ok, self1) = should_trade self0 pred
            in if \<not> ok then (Inr (), logger (Info_rejected (signal pred)) self1)
               else
                 (case calc_limit_price self1 pred sd of
                    Inl e \<Rightarrow> (Inl e, self1)
                  | Inr limit_price \<Rightarrow>
                      (case calc_size ev self1 pred limit_price of
                         (Inl e, self2) \<Rightarrow> (Inl e, self2)
                       | (Inr size', self2) \<Rightarrow>
                           if size' \<le> 0 then (Inr (), logger Warning_zero_size self2)
                           else
                             (let n = open_count (order_state self2)
                              in if dget (max_open_positions (strategy self2)) 10 \<le> int n
                                 then (Inr (), logger (Info_max_open n) self2)
                                 else
                                   (let typ = dget (order_type (strategy self2)) ''limit'';
                                        (placed, self3) =
                                          place_order ev self2 (symbol self2) sd limit_price size' typ
                                    in case placed of
                                         None \<Rightarrow> (Inr (), self3)
                                       | Some meta \<Rightarrow>
                                           (let self4 = logger (Info_placed meta) self3;
                                                tp = take_profit_pct (strategy self4);
                                                sl = stop_loss_pct (strategy self4)
                                            in (Inr (),
                                                if truthy_num tp \<or> truthy_num sl
                                                then logger (Debug_tp_sl tp sl) self4
                                                else self4))))))))"

text \<open>
  The body of the loop of \<^verbatim>\<open>manage_orders\<close> for one item of the snapshot
  \<^verbatim>\<open>list(self.order_state.items())\<close>, and the loop over the snapshot. The snapshot holds
  the entries themselves, not copies; as no key occurs twice in a dictionary, an entry
  is written by \<^verbatim>\<open>cancel_order\<close> only after the loop has read it.
\<close>

definition manage_one :: "env \<Rightarrow> int \<Rightarrow> bot \<Rightarrow> string \<times> order_meta \<Rightarrow> bot" where
  "manage_one ev cancel_after self item =
     (let ord_id = fst item; meta = snd item
      in if state meta \<noteq> ''live'' then self
         else
           (case created_at meta of
              None \<Rightarrow> self
            | Some c \<Rightarrow>
                if c = [] then self
                else
                  (let created_ts = (case iso_timestamp ev c of
                                       Some ts \<Rightarrow> ts
                                     | None \<Rightarrow> time_time ev)
                   in if of_int cancel_after < time_time ev - created_ts
                      then snd (cancel_order ev
                                  (logger (Info_timed_out ord_id cancel_after) self)
                                  (symbol self) ord_id)
                      else self)))"

fun manage_items :: "env \<Rightarrow> int \<Rightarrow> (string \<times> order_meta) list \<Rightarrow> bot \<Rightarrow> bot" where
  "manage_items ev cancel_after [] self = self"
| "manage_items ev cancel_after (item # items) self =
     manage_items ev cancel_after items (manage_one ev cancel_after self item)"

definition manage_orders :: "env \<Rightarrow> bot \<Rightarrow> bot" where
  "manage_orders ev self =
     (let cancel_after = dget (cancel_if_unfilled_after_sec (strategy self)) 120
      in manage_items ev cancel_after (order_state self) self)"


section \<open>The poll loop\<close>

definition fetch_prediction :: "env \<Rightarrow> bot \<Rightarrow> prediction option \<times> bot" where
  "fetch_prediction ev self =
     (case ml_response ev of
        Inl e \<Rightarrow> (None, logger (Error_fetch e) self)
      | Inr data \<Rightarrow> (data, self))"

text \<open>
  \<^verbatim>\<open>run_once\<close>: \<open>ev\<close> answers during \<^verbatim>\<open>fetch_prediction\<close> and \<^verbatim>\<open>process_prediction\<close>,
  \<open>ev_m\<close> during \<^verbatim>\<open>manage_orders\<close>.
\<close>

definition run_once :: "env \<Rightarrow> env \<Rightarrow> bot \<Rightarrow> unit result \<times> bot" where
  "run_once ev ev_m self0 =
     (case fetch_prediction ev self0 of
        (None, self1) \<Rightarrow> (Inr (), self1)
      | (Some pred, self1) \<Rightarrow>
          (let self2 = logger (Info_prediction (signal pred) (confidence pred)
                                 (predicted_return pred) (updated_at pred)) self1
           in case process_prediction ev self2 pred of
                (Inl e, self3) \<Rightarrow> (Inl e, self3)
              | (Inr u, self3) \<Rightarrow> (Inr (), manage_orders ev_m self3)))"

text \<open>
  One iteration of the \<^verbatim>\<open>while True\<close> of \<^verbatim>\<open>run_loop\<close>, on the bot and the local
  variable \<^verbatim>\<open>last_manage\<close>. \<open>time_check\<close> is the clock read by the test, \<open>time_after\<close> the
  clock assigned to \<^verbatim>\<open>last_manage\<close>.
\<close>

record iteration =
  ev_run :: env
  ev_manage :: env
  time_check :: rat
  ev_sweep :: env
  time_after :: rat

definition loop_body :: "int \<Rightarrow> iteration \<Rightarrow> bot \<times> rat \<Rightarrow> unit result \<times> bot \<times> rat" where
  "loop_body manage_interval it st =
     (let self0 = fst st; last_manage = snd st
      in case run_once (ev_run it) (ev_manage it) self0 of
           (Inl e, self1) \<Rightarrow> (Inl e, self1, last_manage)
         | (Inr u, self1) \<Rightarrow>
             if of_int manage_interval < time_check it - last_manage
             then (Inr (), manage_orders (ev_sweep it) self1, time_after it)
             else (Inr (), self1, last_manage))"

text \<open>
  The loop over the iterations that the process lives through: it stops at the first
  exception, which \<^verbatim>\<open>run_loop\<close> logs, and otherwise at the end of the list (the
  \<^verbatim>\<open>KeyboardInterrupt\<close>).
\<close>

fun loop_from :: "int \<Rightarrow> iteration list \<Rightarrow> bot \<times> rat \<Rightarrow> bot \<times> rat" where
  "loop_from manage_interval [] st = st"
| "loop_from manage_interval (it # its) st =
     (case loop_body manage_interval it st of
        (Inl e, self1, last_manage) \<Rightarrow> (logger (Exception_loop e) self1, last_manage)
      | (Inr u, st1) \<Rightarrow> loop_from manage_interval its st1)"

definition run_loop :: "iteration list \<Rightarrow> bot \<Rightarrow> bot \<times> rat" where
  "run_loop its self =
     (let self1 = logger (Info_started (dry_run self)) self;
          last_manage = 0;
          manage_interval = dget (monitor_open_orders_every_sec (strategy self1)) 15
      in loop_from manage_interval its (self1, last_manage))"


section \<open>Observations and sample inputs\<close>

text \<open>
  \<^verbatim>\<open>place_order\<close> and \<^verbatim>\<open>cancel_order\<close> each start with a call of \<^verbatim>\<open>self.log.info\<close>, so the
  log tells how often each of them was called.
\<close>

fun is_placing :: "log_event \<Rightarrow> bool" where
  "is_placing (Info_placing sd symb price size' typ dr) = True"
| "is_placing e = False"

definition place_calls :: "bot \<Rightarrow> nat" where
  "place_calls self = length (filter is_placing (logged self))"

fun is_cancel_of :: "string \<Rightarrow> log_event \<Rightarrow> bool" where
  "is_cancel_of order_id (Info_cancel k dr) = (k = order_id)"
| "is_cancel_of order_id e = False"

definition cancel_calls :: "string \<Rightarrow> bot \<Rightarrow> nat" where
  "cancel_calls order_id self = length (filter (is_cancel_of order_id) (logged self))"


text \<open>Successive sweeps, and successive placements, each in a world of its own.\<close>

fun sweeps :: "env list \<Rightarrow> bot \<Rightarrow> bot" where
  "sweeps [] self = self"
| "sweeps (ev # evs) self = sweeps evs (manage_orders ev self)"




text \<open>Sample inputs: the empty strategy, an exchange that is down, one that answers.\<close>

definition empty_strategy :: strategy_cfg where
  "empty_strategy =
     \<lparr>cfg_dry_run = None, signal_whitelist = None, min_confidence = None,
      min_profit_after_fee = None, use_expected_price = None, limit_price_slippage = None,
      mode = None, percent_of_balance = None, fixed_size = None, max_exposure_usd = None,
      max_open_positions = None, order_type = None, take_profit_pct = None,
      stop_loss_pct = None, cancel_if_unfilled_after_sec = None,
      monitor_open_orders_every_sec = None\<rparr>"

definition empty_resp :: okx_resp where
  "empty_resp =
     \<lparr>r_ordId = None, r_ord_id = None, r_clOrdId = None, r_instId = None, r_fillPx = None,
      r_sz = None, r_state = None, r_sCode = None\<rparr>"

definition okx_down :: okx_client where
  "okx_down =
     \<lparr>get_account_balance = (\<lambda>ccy. Inl (GatewayError ''down'')),
      okx_place_order = (\<lambda>symb sd price size' typ. Inl (GatewayError ''down'')),
      okx_cancel_order = (\<lambda>symb order_id. Inl (GatewayError ''down''))\<rparr>"

definition okx_up :: okx_client where
  "okx_up =
     \<lparr>get_account_balance = (\<lambda>ccy. Inr 200),
      okx_place_order = (\<lambda>symb sd price size' typ. Inr (empty_resp\<lparr>r_ordId := Some ''1001''\<rparr>)),
      okx_cancel_order = (\<lambda>symb order_id. Inr (empty_resp\<lparr>r_sCode := Some ''0''\<rparr>))\<rparr>"

definition sample_iso :: string where
  "sample_iso = ''2025-01-01T00:00:00+00:00''"

definition sample_env :: "okx_client \<Rightarrow> rat \<Rightarrow> env" where
  \<comment> \<open>a world at clock \<open>t\<close> that knows one date, 1735689600 seconds after the epoch\<close>
  "sample_env ox t =
     \<lparr>okx = ox, ml_response = Inr None, time_time = t, now_iso = sample_iso,
      str_float = (\<lambda>x. str_int (py_int x)),
      iso_timestamp = (\<lambda>s. if s = sample_iso then Some 1735689600 else None)\<rparr>"

definition sample_pred :: prediction where
  "sample_pred =
     \<lparr>signal = Some ''buy'', confidence = Some (8 / 10), profit_after_fee = Some (2 / 1000),
      current_price = Some 100, expected_price = Some 102, predicted_return = None,
      updated_at = None\<rparr>"

definition sample_order :: "string \<Rightarrow> string \<Rightarrow> string option \<Rightarrow> order_meta" where
  "sample_order order_id st created =
     \<lparr>ordId = order_id, instId = ''BTC-USDT'', side = ''buy'', px = ''102'', sz = ''1'',
      ordType = Some ''limit'', state = st, created_at = created\<rparr>"

definition dry_bot :: bot where
  "dry_bot = init_bot None empty_strategy"

definition live_bot :: bot where
  "live_bot = init_bot None (empty_strategy\<lparr>cfg_dry_run := Some False\<rparr>)"


definition bot_at_limit :: bot where
  \<comment> \<open>a dry-run bot with \<^verbatim>\<open>max_open_positions = 1\<close> and one live order\<close>
  "bot_at_limit =
     dry_bot\<lparr>strategy := empty_strategy\<lparr>max_open_positions := Some 1\<rparr>,
             order_state := [(''dry_1'', sample_order ''dry_1'' ''live'' None)]\<rparr>"


text \<open>The test of \<^verbatim>\<open>manage_orders\<close> on one entry: it is live, dated, and older than the timeout.\<close>

definition due :: "env \<Rightarrow> int \<Rightarrow> order_meta \<Rightarrow> bool" where
  "due ev cancel_after meta =
     (state meta = ''live'' \<and>
      (case created_at meta of
         None \<Rightarrow> False
       | Some c \<Rightarrow> c \<noteq> [] \<and>
           of_int cancel_after
             < time_time ev - (case iso_timestamp ev c of Some ts \<Rightarrow> ts | None \<Rightarrow> time_time ev)))"

definition sample_ledger :: ledger where
  "sample_ledger =
     [(''dry_1'', sample_order ''dry_1'' ''live'' (Some sample_iso)),
      (''dry_2'', sample_order ''dry_2'' ''live'' (Some ''yesterday'')),
      (''dry_3'', sample_order ''dry_3'' ''live'' None)]"








section \<open>The strategy filter and the limit price\<close>

lemma lower_buy: "lower ''buy'' = ''buy''"
  by code_simp

lemma lower_sell: "lower ''sell'' \<noteq> ''buy''"
  by code_simp



text \<open>
  C2: with \<open>base\<close> the expected price when \<^verbatim>\<open>use_expected_price\<close> is set (the default)
  and the current price otherwise, \<^verbatim>\<open>calc_limit_price\<close> returns for the side buy
  \<open>base * (1 + slippage)\<close> when \<open>base\<close> is above the current price and \<open>base\<close> otherwise,
  and for the side sell \<open>base * (1 - slippage)\<close> when \<open>base\<close> is below the current price
  and \<open>base\<close> otherwise, with slippage 0.001 when unset, rounded to 8 decimal places. An
  absent expected price reads as the current price; a side that lowers to \<^verbatim>\<open>buy\<close> is a
  buy and every other side is priced as a sell.
\<close>

theorem calc_limit_price_spec:
  assumes "current_price pred = Some cur"
    and "base = (if dget (use_expected_price (strategy self)) True
                 then dget (expected_price pred) cur else cur)"
    and "slippage = dget (limit_price_slippage (strategy self)) (1 / 1000)"
  shows "calc_limit_price self pred ''buy''
           = Inr (round8 (if cur < base then base * (1 + slippage) else base))
       \<and> calc_limit_price self pred ''sell''
           = Inr (round8 (if base < cur then base * (1 - slippage) else base))
       \<and> (lower sd = ''buy''
            \<longrightarrow> calc_limit_price self pred sd = calc_limit_price self pred ''buy'')
       \<and> (lower sd \<noteq> ''buy''
            \<longrightarrow> calc_limit_price self pred sd = calc_limit_price self pred ''sell'')"
  using assms lower_buy lower_sell by (simp add: calc_limit_price_def Let_def)

theorem calc_limit_price_spec_witness:
  "current_price sample_pred = Some 100
   \<and> calc_limit_price dry_bot sample_pred ''buy'' = Inr (102102 / 1000)
   \<and> calc_limit_price dry_bot sample_pred ''sell'' = Inr 102
   \<and> calc_limit_price dry_bot sample_pred ''BUY'' = Inr (102102 / 1000)"
proof -
  have c: "current_price sample_pred = Some 100"
    by code_simp
  have b: "(102::rat) = (if dget (use_expected_price (strategy dry_bot)) True
                 then dget (expected_price sample_pred) 100 else 100)"
    by code_simp
  have s: "(1 / 1000 :: rat) = dget (limit_price_slippage (strategy dry_bot)) (1 / 1000)"
    by code_simp
  have l: "lower ''BUY'' = ''buy''"
    by code_simp
  have r1: "round8 (if (100::rat) < 102 then 102 * (1 + 1 / 1000) else 102) = 102102 / 1000"
    by code_simp
  have r2: "round8 (if (102::rat) < 100 then 102 * (1 - 1 / 1000) else 102) = 102"
    by code_simp
  show ?thesis
    using calc_limit_price_spec [OF c b s, of "''BUY''"] c l r1 r2 by simp
qed

section \<open>Placing and canceling\<close>

lemma map_entry_fixed:
  "map_of l k = Some m \<Longrightarrow> f m = m \<Longrightarrow> AList.map_entry k f l = l"
  by (induction l) (auto split: if_splits)

text \<open>
  C7: in dry-run mode, \<^verbatim>\<open>cancel_order\<close> on an order that the ledger holds in state
  \<^verbatim>\<open>canceled\<close> returns the acknowledgment \<^verbatim>\<open>{"ordId": order_id, "state": "canceled"}\<close>,
  raises nothing, and leaves the ledger as it was: the record is retained, in state
  \<^verbatim>\<open>canceled\<close>.
\<close>

theorem cancel_order_dry_idempotent:
  assumes "dry_run self"
    and "map_of (order_state self) order_id = Some m"
    and "state m = ''canceled''"
  shows "fst (cancel_order ev self symb order_id) = Some (canceled_ack order_id)
       \<and> order_state (snd (cancel_order ev self symb order_id)) = order_state self
       \<and> map_of (order_state (snd (cancel_order ev self symb order_id))) order_id = Some m
       \<and> r_ordId (canceled_ack order_id) = Some order_id
       \<and> r_state (canceled_ack order_id) = Some ''canceled''"
proof -
  have "m\<lparr>state := ''canceled''\<rparr> = m"
    using assms(3) by simp
  then have "AList.map_entry order_id (\<lambda>m. m\<lparr>state := ''canceled''\<rparr>) (order_state self)
               = order_state self"
    using assms(2) by (intro map_entry_fixed) auto
  then show ?thesis
    using assms by (simp add: cancel_order_def logger_def canceled_ack_def Let_def)
qed

theorem cancel_order_dry_idempotent_witness:
  "dry_run (dry_bot\<lparr>order_state := [(''dry_1'', sample_order ''dry_1'' ''canceled'' None)]\<rparr>)
   \<and> fst (cancel_order (sample_env okx_down 0)
             (dry_bot\<lparr>order_state := [(''dry_1'', sample_order ''dry_1'' ''canceled'' None)]\<rparr>)
             ''BTC-USDT'' ''dry_1'') = Some (canceled_ack ''dry_1'')
   \<and> order_state (snd (cancel_order (sample_env okx_down 0)
             (dry_bot\<lparr>order_state := [(''dry_1'', sample_order ''dry_1'' ''canceled'' None)]\<rparr>)
             ''BTC-USDT'' ''dry_1'')) = [(''dry_1'', sample_order ''dry_1'' ''canceled'' None)]"
proof -
  let ?b = "dry_bot\<lparr>order_state := [(''dry_1'', sample_order ''dry_1'' ''canceled'' None)]\<rparr>"
  have d: "dry_run ?b"
    by code_simp
  have m: "map_of (order_state ?b) ''dry_1'' = Some (sample_order ''dry_1'' ''canceled'' None)"
    by code_simp
  have s: "state (sample_order ''dry_1'' ''canceled'' None) = ''canceled''"
    by code_simp
  show ?thesis
    using cancel_order_dry_idempotent [OF d m s, of "sample_env okx_down 0" "''BTC-USDT''"] d
    by simp
qed

text \<open>
  C4: in live mode, when the call of the exchange raises, \<^verbatim>\<open>place_order\<close> logs the error
  and returns \<^verbatim>\<open>None\<close>, \<^verbatim>\<open>cancel_order\<close> logs the error (and returns \<^verbatim>\<open>None\<close>), and
  both leave the ledger as it was.
\<close>

theorem gateway_failure_atomic:
  assumes "\<not> dry_run self"
  shows "(okx_place_order (okx ev) symb sd price size' typ = Inl e \<longrightarrow>
            fst (place_order ev self symb sd price size' typ) = None
          \<and> order_state (snd (place_order ev self symb sd price size' typ)) = order_state self
          \<and> logged (snd (place_order ev self symb sd price size' typ))
              = logged self @ [Info_placing sd symb price size' typ False, Error_place e])
       \<and> (okx_cancel_order (okx ev) symb order_id = Inl e' \<longrightarrow>
            fst (cancel_order ev self symb order_id) = None
          \<and> order_state (snd (cancel_order ev self symb order_id)) = order_state self
          \<and> logged (snd (cancel_order ev self symb order_id))
              = logged self @ [Info_cancel order_id False, Error_cancel e'])"
  using assms by (simp add: place_order_def cancel_order_def logger_def Let_def)

theorem gateway_failure_atomic_witness:
  "\<not> dry_run (live_bot\<lparr>order_state := [(''1001'', sample_order ''1001'' ''live'' None)]\<rparr>)
   \<and> okx_place_order (okx (sample_env okx_down 5)) ''BTC-USDT'' ''buy'' 102 1 ''limit''
       = Inl (GatewayError ''down'')
   \<and> okx_cancel_order (okx (sample_env okx_down 5)) ''BTC-USDT'' ''1001''
       = Inl (GatewayError ''down'')
   \<and> fst (place_order (sample_env okx_down 5)
        (live_bot\<lparr>order_state := [(''1001'', sample_order ''1001'' ''live'' None)]\<rparr>)
        ''BTC-USDT'' ''buy'' 102 1 ''limit'') = None
   \<and> order_state (snd (place_order (sample_env okx_down 5)
        (live_bot\<lparr>order_state := [(''1001'', sample_order ''1001'' ''live'' None)]\<rparr>)
        ''BTC-USDT'' ''buy'' 102 1 ''limit''))
       = [(''1001'', sample_order ''1001'' ''live'' None)]
   \<and> fst (cancel_order (sample_env okx_down 5)
        (live_bot\<lparr>order_state := [(''1001'', sample_order ''1001'' ''live'' None)]\<rparr>)
        ''BTC-USDT'' ''1001'') = None
   \<and> order_state (snd (cancel_order (sample_env okx_down 5)
        (live_bot\<lparr>order_state := [(''1001'', sample_order ''1001'' ''live'' None)]\<rparr>)
        ''BTC-USDT'' ''1001''))
       = [(''1001'', sample_order ''1001'' ''live'' None)]"
proof -
  let ?b = "live_bot\<lparr>order_state := [(''1001'', sample_order ''1001'' ''live'' None)]\<rparr>"
  have d: "\<not> dry_run ?b"
    by code_simp
  have p: "okx_place_order (okx (sample_env okx_down 5)) ''BTC-USDT'' ''buy'' 102 1 ''limit''
       = Inl (GatewayError ''down'')"
    by code_simp
  have c: "okx_cancel_order (okx (sample_env okx_down 5)) ''BTC-USDT'' ''1001''
       = Inl (GatewayError ''down'')"
    by code_simp
  show ?thesis
    using gateway_failure_atomic [OF d, of "sample_env okx_down 5" "''BTC-USDT''" "''buy''"
        102 1 "''limit''" "GatewayError ''down''" "''1001''" "GatewayError ''down''"] d p c
    by simp
qed


section \<open>The limit on open positions\<close>

lemma should_trade_frame:
  "order_state (snd (should_trade self pred)) = order_state self
   \<and> strategy (snd (should_trade self pred)) = strategy self
   \<and> symbol (snd (should_trade self pred)) = symbol self
   \<and> dry_run (snd (should_trade self pred)) = dry_run self
   \<and> place_calls (snd (should_trade self pred)) = place_calls self"
  by (simp add: should_trade_def logger_def place_calls_def Let_def)

lemma calc_size_frame:
  "order_state (snd (calc_size ev self pred price)) = order_state self
   \<and> strategy (snd (calc_size ev self pred price)) = strategy self
   \<and> symbol (snd (calc_size ev self pred price)) = symbol self
   \<and> dry_run (snd (calc_size ev self pred price)) = dry_run self
   \<and> place_calls (snd (calc_size ev self pred price)) = place_calls self"
  by (simp add: calc_size_def logger_def place_calls_def Let_def split: sum.splits)

text \<open>
  C3: when the number of ledger entries in state \<^verbatim>\<open>live\<close> is at least
  \<^verbatim>\<open>max_open_positions\<close> (10 when unset), \<^verbatim>\<open>process_prediction\<close> leaves the ledger as it
  was and does not call \<^verbatim>\<open>place_order\<close>, for every prediction and every answer of the
  exchange, also when the computation of the price or of the size raises.
\<close>

theorem process_prediction_at_limit:
  assumes "dget (max_open_positions (strategy self)) 10 \<le> int (open_count (order_state self))"
  shows "order_state (snd (process_prediction ev self pred)) = order_state self
       \<and> place_calls (snd (process_prediction ev self pred)) = place_calls self"
proof -
  obtain ok s1 where st: "should_trade self pred = (ok, s1)"
    by (cases "should_trade self pred")
  have f1: "order_state s1 = order_state self" "strategy s1 = strategy self"
    "place_calls s1 = place_calls self"
    using should_trade_frame [of self pred] st by simp_all
  show ?thesis
  proof (cases "signal pred \<noteq> Some ''buy'' \<and> signal pred \<noteq> Some ''sell''")
    case True
    then show ?thesis
      by (simp add: process_prediction_def logger_def place_calls_def Let_def)
  next
    case False
    then have sup: "(signal pred \<noteq> Some ''buy'' \<and> signal pred \<noteq> Some ''sell'') = False"
      by simp
    define sd where "sd = (if signal pred = Some ''buy'' then ''buy'' else ''sell'')"
    show ?thesis
    proof (cases ok)
      case False
      then show ?thesis
        using sup st f1 by (simp add: process_prediction_def logger_def place_calls_def Let_def)
    next
      case True
      show ?thesis
      proof (cases "calc_limit_price s1 pred sd")
        case (Inl e)
        then show ?thesis
          using sup st f1 True
          by (simp add: process_prediction_def Let_def sd_def logger_def place_calls_def)
      next
        case (Inr lp)
        obtain r s2 where cs: "calc_size ev s1 pred lp = (r, s2)"
          by (cases "calc_size ev s1 pred lp")
        have f2: "order_state s2 = order_state self" "strategy s2 = strategy self"
          "place_calls s2 = place_calls self"
          using calc_size_frame [of ev s1 pred lp] cs f1 by simp_all
        show ?thesis
        proof (cases r)
          case (Inl e)
          then show ?thesis
            using sup st True \<open>calc_limit_price s1 pred sd = Inr lp\<close> cs f2
            by (simp add: process_prediction_def Let_def sd_def logger_def place_calls_def)
        next
          case (Inr size')
          then show ?thesis
            using sup st True \<open>calc_limit_price s1 pred sd = Inr lp\<close> cs f2 assms
            by (simp add: process_prediction_def Let_def sd_def logger_def place_calls_def)
        qed
      qed
    qed
  qed
qed

theorem process_prediction_at_limit_witness:
  "dget (max_open_positions (strategy bot_at_limit)) 10
     \<le> int (open_count (order_state bot_at_limit))
   \<and> order_state (snd (process_prediction (sample_env okx_up 5) bot_at_limit sample_pred))
       = [(''dry_1'', sample_order ''dry_1'' ''live'' None)]
   \<and> place_calls (snd (process_prediction (sample_env okx_up 5) bot_at_limit sample_pred)) = 0"
proof -
  have h: "dget (max_open_positions (strategy bot_at_limit)) 10
     \<le> int (open_count (order_state bot_at_limit))"
    by code_simp
  have l: "order_state bot_at_limit = [(''dry_1'', sample_order ''dry_1'' ''live'' None)]"
    by code_simp
  have p: "place_calls bot_at_limit = 0"
    by code_simp
  show ?thesis
    using process_prediction_at_limit [OF h, of "sample_env okx_up 5" sample_pred] h l p
    by simp
qed

section \<open>The position size\<close>






section \<open>The timeout sweep\<close>

lemma cancel_calls_logger:
  "cancel_calls k (logger e s) = cancel_calls k s + (if is_cancel_of k e then 1 else 0)"
  by (simp add: cancel_calls_def logger_def)

lemma logger_frame:
  "order_state (logger e s) = order_state s" "dry_run (logger e s) = dry_run s"
  "symbol (logger e s) = symbol s" "strategy (logger e s) = strategy s"
  by (simp_all add: logger_def)

lemma cancel_order_frame:
  "dry_run (snd (cancel_order ev s symb k)) = dry_run s
   \<and> symbol (snd (cancel_order ev s symb k)) = symbol s
   \<and> strategy (snd (cancel_order ev s symb k)) = strategy s"
  by (simp add: cancel_order_def logger_def Let_def split: sum.splits)

lemma cancel_order_distinct:
  "distinct (map fst (order_state s))
   \<Longrightarrow> distinct (map fst (order_state (snd (cancel_order ev s symb k))))"
  by (simp add: cancel_order_def logger_def Let_def distinct_map_entry distinct_delete
      split: sum.splits)

lemma cancel_order_other:
  assumes "k \<noteq> order_id"
  shows "map_of (order_state (snd (cancel_order ev s symb k))) order_id
           = map_of (order_state s) order_id
       \<and> cancel_calls order_id (snd (cancel_order ev s symb k)) = cancel_calls order_id s"
  using assms
  by (simp add: cancel_order_def logger_def cancel_calls_def Let_def map_of_map_entry
      delete_conv' split: sum.splits)




lemma manage_one_due:
  "manage_one ev ca s (k, m) =
     (if due ev ca m
      then snd (cancel_order ev (logger (Info_timed_out k ca) s) (symbol s) k)
      else s)"
  by (simp add: manage_one_def due_def Let_def split: option.splits)

lemma manage_one_frame:
  "dry_run (manage_one ev ca s item) = dry_run s
   \<and> symbol (manage_one ev ca s item) = symbol s
   \<and> strategy (manage_one ev ca s item) = strategy s"
  by (cases item) (simp add: manage_one_due cancel_order_frame logger_frame)

lemma manage_one_distinct:
  "distinct (map fst (order_state s))
   \<Longrightarrow> distinct (map fst (order_state (manage_one ev ca s item)))"
  by (cases item) (simp add: manage_one_due cancel_order_distinct logger_frame)

lemma manage_one_other:
  assumes "order_id \<noteq> fst item"
  shows "map_of (order_state (manage_one ev ca s item)) order_id = map_of (order_state s) order_id
       \<and> cancel_calls order_id (manage_one ev ca s item) = cancel_calls order_id s"
  using assms
  by (cases item) (auto simp: manage_one_due cancel_order_other logger_frame cancel_calls_logger)

lemma manage_items_frame:
  "dry_run (manage_items ev ca items s) = dry_run s
   \<and> symbol (manage_items ev ca items s) = symbol s
   \<and> strategy (manage_items ev ca items s) = strategy s"
  by (induction items arbitrary: s) (simp_all add: manage_one_frame)

lemma manage_items_distinct:
  "distinct (map fst (order_state s))
   \<Longrightarrow> distinct (map fst (order_state (manage_items ev ca items s)))"
  by (induction items arbitrary: s) (simp_all add: manage_one_distinct)

lemma manage_items_other:
  "order_id \<notin> fst ` set items
   \<Longrightarrow> map_of (order_state (manage_items ev ca items s)) order_id = map_of (order_state s) order_id
       \<and> cancel_calls order_id (manage_items ev ca items s) = cancel_calls order_id s"
  by (induction items arbitrary: s) (simp_all add: manage_one_other)

lemma manage_items_append:
  "manage_items ev ca (xs @ ys) s = manage_items ev ca ys (manage_items ev ca xs s)"
  by (induction xs arbitrary: s) simp_all

lemma manage_items_key:
  assumes "distinct (map fst items)" and "(k, m) \<in> set items"
  shows "\<exists>s1. map_of (order_state s1) k = map_of (order_state s) k
            \<and> cancel_calls k s1 = cancel_calls k s
            \<and> dry_run s1 = dry_run s \<and> symbol s1 = symbol s
            \<and> map_of (order_state (manage_items ev ca items s)) k
                = map_of (order_state (manage_one ev ca s1 (k, m))) k
            \<and> cancel_calls k (manage_items ev ca items s)
                = cancel_calls k (manage_one ev ca s1 (k, m))"
proof -
  obtain pre post where sp: "items = pre @ (k, m) # post"
    using assms(2) by (auto dest: split_list)
  have np: "k \<notin> fst ` set pre" and nq: "k \<notin> fst ` set post"
    using assms(1) sp by auto
  define s1 where "s1 = manage_items ev ca pre s"
  have r: "manage_items ev ca items s = manage_items ev ca post (manage_one ev ca s1 (k, m))"
    by (simp add: sp manage_items_append s1_def)
  show ?thesis
    using manage_items_other [OF np, of ev ca s]
      manage_items_other [OF nq, of ev ca "manage_one ev ca s1 (k, m)"]
      manage_items_frame [of ev ca pre s] r
    by (intro exI [of _ s1]) (simp add: s1_def)
qed


lemma manage_orders_key:
  assumes "distinct (map fst (order_state self))"
    and "map_of (order_state self) k = Some m"
    and "ca = dget (cancel_if_unfilled_after_sec (strategy self)) 120"
  shows "\<exists>s1. map_of (order_state s1) k = Some m
            \<and> cancel_calls k s1 = cancel_calls k self
            \<and> dry_run s1 = dry_run self \<and> symbol s1 = symbol self
            \<and> map_of (order_state (manage_orders ev self)) k
                = map_of (order_state (manage_one ev ca s1 (k, m))) k
            \<and> cancel_calls k (manage_orders ev self)
                = cancel_calls k (manage_one ev ca s1 (k, m))"
proof -
  have "(k, m) \<in> set (order_state self)"
    using assms(2) by (rule map_of_SomeD)
  from manage_items_key [OF assms(1) this, of self ev ca] show ?thesis
    using assms(2,3) by (simp add: manage_orders_def Let_def)
qed

lemma manage_orders_not_due:
  assumes "distinct (map fst (order_state self))"
    and "map_of (order_state self) k = Some m"
    and "\<not> due ev (dget (cancel_if_unfilled_after_sec (strategy self)) 120) m"
  shows "map_of (order_state (manage_orders ev self)) k = Some m
       \<and> cancel_calls k (manage_orders ev self) = cancel_calls k self"
  using manage_orders_key [OF assms(1,2) refl, of ev] assms(3)
  by (auto simp: manage_one_due)


lemma manage_orders_frame:
  "dry_run (manage_orders ev s) = dry_run s \<and> symbol (manage_orders ev s) = symbol s
   \<and> strategy (manage_orders ev s) = strategy s"
  by (simp add: manage_orders_def Let_def manage_items_frame)

lemma manage_orders_distinct:
  "distinct (map fst (order_state s)) \<Longrightarrow> distinct (map fst (order_state (manage_orders ev s)))"
  by (simp add: manage_orders_def Let_def manage_items_distinct)




text \<open>
  C10: a live entry whose \<^verbatim>\<open>created_at\<close> is absent or empty is never canceled by
  \<^verbatim>\<open>manage_orders\<close>: after any number of sweeps, at whatever clocks and with whatever
  answers of the exchange, the ledger holds the entry unchanged and \<^verbatim>\<open>cancel_order\<close>
  has not been called for it.
\<close>

theorem manage_orders_skips_undated:
  assumes "distinct (map fst (order_state self))"
    and "map_of (order_state self) order_id = Some m"
    and "state m = ''live''"
    and "\<not> truthy_str (created_at m)"
  shows "map_of (order_state (sweeps evs self)) order_id = Some m
       \<and> cancel_calls order_id (sweeps evs self) = cancel_calls order_id self"
  using assms(1,2)
proof (induction evs arbitrary: self)
  case Nil
  then show ?case by simp
next
  case (Cons ev evs)
  have nd: "\<not> due ev (dget (cancel_if_unfilled_after_sec (strategy self)) 120) m"
    using assms(4) by (auto simp: due_def truthy_str_def split: option.splits)
  have one: "map_of (order_state (manage_orders ev self)) order_id = Some m"
    "cancel_calls order_id (manage_orders ev self) = cancel_calls order_id self"
    using manage_orders_not_due [OF Cons.prems nd] by simp_all
  have "distinct (map fst (order_state (manage_orders ev self)))"
    using Cons.prems(1) by (rule manage_orders_distinct)
  from Cons.IH [OF this one(1)] one(2) show ?case
    by simp
qed

theorem manage_orders_skips_undated_witness:
  "distinct (map fst (order_state (dry_bot\<lparr>order_state := sample_ledger\<rparr>)))
   \<and> map_of (order_state (dry_bot\<lparr>order_state := sample_ledger\<rparr>)) ''dry_3''
       = Some (sample_order ''dry_3'' ''live'' None)
   \<and> state (sample_order ''dry_3'' ''live'' None) = ''live''
   \<and> \<not> truthy_str (created_at (sample_order ''dry_3'' ''live'' None))
   \<and> map_of (order_state (sweeps [sample_env okx_up 1735689721, sample_env okx_up 1800000000]
                             (dry_bot\<lparr>order_state := sample_ledger\<rparr>))) ''dry_3''
       = Some (sample_order ''dry_3'' ''live'' None)
   \<and> cancel_calls ''dry_3'' (sweeps [sample_env okx_up 1735689721, sample_env okx_up 1800000000]
                             (dry_bot\<lparr>order_state := sample_ledger\<rparr>)) = 0"
proof -
  let ?b = "dry_bot\<lparr>order_state := sample_ledger\<rparr>"
  have d: "distinct (map fst (order_state ?b))"
    by code_simp
  have m: "map_of (order_state ?b) ''dry_3'' = Some (sample_order ''dry_3'' ''live'' None)"
    by code_simp
  have s: "state (sample_order ''dry_3'' ''live'' None) = ''live''"
    by code_simp
  have c: "\<not> truthy_str (created_at (sample_order ''dry_3'' ''live'' None))"
    by code_simp
  have z: "cancel_calls ''dry_3'' ?b = 0"
    by code_simp
  show ?thesis
    using manage_orders_skips_undated [OF d m s c,
        of "[sample_env okx_up 1735689721, sample_env okx_up 1800000000]"] d m s c z
    by simp
qed

section \<open>The poll loop and its sweeps\<close>







section \<open>Order identifiers\<close>
















end
